theory Spec2Isabelle
  imports Complex_Main "HOL-Library.Word"
begin

section \<open>ECMAScript strings and arrays\<close>

text \<open>
  A string is the list of its UTF-16 code units. \<open>lit\<close> gives the string of an ASCII
  literal.
\<close>

type_synonym jstring = "16 word list"

definition lit :: "string \<Rightarrow> jstring" where
  "lit s = map of_char s"

text \<open>
  White space as \<^verbatim>\<open>String.prototype.trim\<close> understands it: the code points of
  WhiteSpace (TAB, VT, FF, ZWNBSP and the space separators U+0020, U+00A0, U+1680,
  U+2000 to U+200A, U+202F, U+205F, U+3000) and of LineTerminator (LF, CR, U+2028,
  U+2029). All of them are single code units.
\<close>

definition isWhiteSpace :: "16 word \<Rightarrow> bool" where
  "isWhiteSpace c =
     (c \<in> set [0x0009, 0x000A, 0x000B, 0x000C, 0x000D, 0x0020, 0x00A0, 0x1680,
                0x2028, 0x2029, 0x202F, 0x205F, 0x3000, 0xFEFF]
      \<or> (0x2000 \<le> c \<and> c \<le> 0x200A))"

definition trimStart :: "jstring \<Rightarrow> jstring" where
  "trimStart s = dropWhile isWhiteSpace s"

definition trimEnd :: "jstring \<Rightarrow> jstring" where
  "trimEnd s = rev (dropWhile isWhiteSpace (rev s))"

text \<open>\<^verbatim>\<open>String.prototype.trim\<close>: white space removed at both ends.\<close>

definition trim :: "jstring \<Rightarrow> jstring" where
  "trim s = trimEnd (trimStart s)"

text \<open>
  \<^verbatim>\<open>String.prototype.toUpperCase\<close>. On a string of ASCII code units it turns the
  letters a to z into A to Z and leaves the rest. On any other string the result comes
  from the case tables of Unicode (which map every cased letter and may lengthen the
  string); they are the parameter \<open>unicodeUpper\<close>.
\<close>

definition upperAscii :: "16 word \<Rightarrow> 16 word" where
  "upperAscii c = (if 0x61 \<le> c \<and> c \<le> 0x7A then c - 0x20 else c)"

definition toUpperCase :: "(jstring \<Rightarrow> jstring) \<Rightarrow> jstring \<Rightarrow> jstring" where
  "toUpperCase unicodeUpper s =
     (if list_all (\<lambda>c. c < 0x80) s then map upperAscii s else unicodeUpper s)"

text \<open>
  \<^verbatim>\<open>Array.prototype.join\<close> on an array of strings: the separator goes between
  neighbours, the empty array gives the empty string.
\<close>

fun join :: "jstring \<Rightarrow> jstring list \<Rightarrow> jstring" where
  "join sep [] = []"
| "join sep [x] = x"
| "join sep (x # y # ys) = x @ sep @ join sep (y # ys)"

text \<open>
  \<^verbatim>\<open>Array.prototype.slice(start)\<close> with one argument: a negative start counts from
  the end, and both directions are clamped to the array.
\<close>

definition slice :: "int \<Rightarrow> 'a list \<Rightarrow> 'a list" where
  "slice start xs =
     (let len = int (length xs);
          k = (if start < 0 then max (len + start) 0 else min start len)
      in drop (nat k) xs)"

text \<open>\<^verbatim>\<open>a || b\<close> on strings: the empty string is falsy.\<close>

definition or_else :: "jstring \<Rightarrow> jstring \<Rightarrow> jstring" where
  "or_else a b = (if a = [] then b else a)"

text \<open>\<^verbatim>\<open>a ?? b\<close>: only an absent value gives way.\<close>

definition nullish :: "'a option \<Rightarrow> 'a \<Rightarrow> 'a" where
  "nullish a b = (case a of None \<Rightarrow> b | Some v \<Rightarrow> v)"

section \<open>Values of \<^verbatim>\<open>JSON.parse\<close>\<close>

datatype json =
    JNull
  | JBool bool
  | JNumber real
  | JString jstring
  | JArray "json list"
  | JObject "(jstring \<times> json) list"

text \<open>
  An object is the list of its own entries, each key once. A number is held as the real
  it denotes (the routes only ask whether a parsed value is truthy, which for a number
  means non-zero).

  Truthiness, as \<^verbatim>\<open>parsed && ...\<close> tests it. Arrays and objects are always truthy.
\<close>

fun truthy :: "json \<Rightarrow> bool" where
  "truthy JNull = False"
| "truthy (JBool b) = b"
| "truthy (JNumber x) = (x \<noteq> 0)"
| "truthy (JString s) = (s \<noteq> [])"
| "truthy (JArray _) = True"
| "truthy (JObject _) = True"

text \<open>
  Reading a property \<^verbatim>\<open>v.k\<close> of a truthy parsed value, for a key that no prototype
  defines (the routes read \<^verbatim>\<open>reply\<close> and \<^verbatim>\<open>plan\<close> only): an object gives
  its own entry, anything else gives \<^verbatim>\<open>undefined\<close>.
\<close>

fun get_prop :: "json \<Rightarrow> jstring \<Rightarrow> json option" where
  "get_prop (JObject kvs) k = map_of kvs k"
| "get_prop _ k = None"

text \<open>\<^verbatim>\<open>typeof x === "string"\<close>, giving the string when it is one.\<close>

fun as_string :: "json option \<Rightarrow> jstring option" where
  "as_string (Some (JString s)) = Some s"
| "as_string _ = None"

section \<open>The upstream payload and text extraction\<close>

text \<open>
  The payload types of both routes, every field optional. The field \<^verbatim>\<open>text\<close> of a
  part is \<open>p_text\<close> here and the field \<^verbatim>\<open>content\<close> of a candidate is \<open>c_content\<close>.
\<close>

record GeminiPart =
  p_text :: "jstring option"

record GeminiContent =
  parts :: "GeminiPart list option"

record GeminiCandidate =
  c_content :: "GeminiContent option"

record GeminiResponse =
  candidates :: "GeminiCandidate list option"

text \<open>
  \<^verbatim>\<open>const [candidate] = payload.candidates ?? []\<close> takes the first element, if any;
  the optional chain \<^verbatim>\<open>candidate?.content?.parts\<close> is absent as soon as one link is.
\<close>

definition extractText :: "GeminiResponse \<Rightarrow> jstring" where
  "extractText payload =
     (case nullish (candidates payload) [] of
        [] \<Rightarrow> []
      | candidate # _ \<Rightarrow>
          (case c_content candidate of
             None \<Rightarrow> []
           | Some c \<Rightarrow>
               (case parts c of
                  None \<Rightarrow> []
                | Some ps \<Rightarrow> join [] (map (\<lambda>part. nullish (p_text part) []) ps))))"

section \<open>The two route handlers\<close>

text \<open>
  \<open>Turn\<close> is the type of a conversation turn in both routes. The fields of the design
  request carry the prefix \<open>d_\<close>.
\<close>

record Turn =
  role :: jstring
  content :: jstring

record ChatRequest =
  message :: "jstring option"
  modeId :: "jstring option"
  systemPrompt :: "jstring option"
  conversation :: "Turn list option"

record DesignRequest =
  d_modeId :: "jstring option"
  d_notes :: "jstring option"
  d_transcript :: "Turn list option"

text \<open>The process environment: each variable is set or not.\<close>

record env =
  GEMINI_API_KEY :: "jstring option"
  GEMINI_MODEL :: "jstring option"
  GEMINI_API_BASE :: "jstring option"

text \<open>
  One call of \<^verbatim>\<open>fetch\<close>: the three pieces the URL is built from, the single text part
  of the body and the generation parameters.
\<close>

record fetch_request =
  api_base :: jstring
  model :: jstring
  key :: jstring
  prompt :: jstring
  temperature :: rat
  topP :: rat
  topK :: nat

text \<open>
  What the upstream answers: its status, its body as \<^verbatim>\<open>response.text()\<close> reads it and
  as \<^verbatim>\<open>response.json()\<close> reads it (\<open>None\<close> when the call rejects).
\<close>

record upstream_response =
  up_status :: nat
  up_text :: "jstring option"
  up_json :: "GeminiResponse option"

datatype fetch_result = FetchRejected | FetchResponse upstream_response

definition ok :: "upstream_response \<Rightarrow> bool" where
  "ok r = (200 \<le> up_status r \<and> up_status r \<le> 299)"

datatype body =
    ErrorBody jstring
  | ErrorDetailBody jstring jstring
  | ReplyBody jstring "jstring option"
  | ProposalBody jstring

record http_response =
  status :: nat
  body :: body

text \<open>A handler returns a response or lets an exception escape.\<close>

datatype completion = Returned http_response | Threw

definition missing :: "jstring option \<Rightarrow> bool" where
  "missing v = (case v of None \<Rightarrow> True | Some s \<Rightarrow> s = [])"

definition GEMINI_MODEL_default :: jstring where
  "GEMINI_MODEL_default = (lit ''gemini-1.5-flash'')"

definition GEMINI_API_BASE_default :: jstring where
  "GEMINI_API_BASE_default = (lit ''https://generativelanguage.googleapis.com/v1beta/models'')"

definition turn_line :: "(jstring \<Rightarrow> jstring) \<Rightarrow> Turn \<Rightarrow> jstring" where
  "turn_line unicodeUpper turn =
     toUpperCase unicodeUpper (role turn) @ (lit '': '') @ content turn"

definition transcript_of :: "(jstring \<Rightarrow> jstring) \<Rightarrow> Turn list \<Rightarrow> jstring" where
  "transcript_of unicodeUpper conv =
     join (lit ''\<newline>'') (map (turn_line unicodeUpper) conv)"

definition safeJsonParse :: "(jstring \<Rightarrow> json option) \<Rightarrow> jstring \<Rightarrow> json" where
  "safeJsonParse JSON_parse v = (case JSON_parse v of None \<Rightarrow> JNull | Some j \<Rightarrow> j)"

definition userPrompt :: "(jstring \<Rightarrow> jstring) \<Rightarrow> ChatRequest \<Rightarrow> jstring \<Rightarrow> jstring" where
  \<open>userPrompt unicodeUpper req msg = trim (
     (lit ''\<newline>'')
     @ (lit ''You are operating the Gemini Live Agentic console.\<newline>Mode ID: '')
     @ nullish (modeId req) (lit ''unknown'')
     @ (lit ''\<newline>System Instructions:\<newline>'')
     @ nullish (systemPrompt req) (lit ''Maintain a helpful, agentic tone and expand user ideas.'')
     @ (lit ''\<newline>\<newline>Transcript so far:\<newline>'')
     @ transcript_of unicodeUpper (nullish (conversation req) [])
     @ (lit ''\<newline>\<newline>New live user utterance:\<newline>'')
     @ msg
     @ (lit ''\<newline>\<newline>Respond with strict JSON that matches:\<newline>{\<newline>  "reply": "string",\<newline>'')
     @ (lit ''  "plan": "optional string describing next agentic actions, formatted in markdown bullet points if present"\<newline>}'')
     @ (lit ''\<newline>''))\<close>

definition chat_call ::
  "(jstring \<Rightarrow> jstring) \<Rightarrow> env \<Rightarrow> ChatRequest \<Rightarrow> jstring \<Rightarrow> fetch_request" where
  "chat_call unicodeUpper e req msg =
     \<lparr>api_base = nullish (GEMINI_API_BASE e) GEMINI_API_BASE_default,
      model = nullish (GEMINI_MODEL e) GEMINI_MODEL_default,
      key = nullish (GEMINI_API_KEY e) [],
      prompt = userPrompt unicodeUpper req msg,
      temperature = 7 / 10, topP = 9 / 10, topK = 40\<rparr>"

text \<open>
  The chat route. The request body is what \<^verbatim>\<open>request.json()\<close> gives (\<open>None\<close> when
  it rejects), \<open>JSON_parse\<close> is the runtime's parser (\<open>None\<close> when it throws) and
  \<open>unicodeUpper\<close> its case conversion. The result pairs what the handler returns with
  the upstream calls it made, in order.
\<close>

definition POST_chat ::
  "env \<Rightarrow> (fetch_request \<Rightarrow> fetch_result) \<Rightarrow> (jstring \<Rightarrow> json option) \<Rightarrow> (jstring \<Rightarrow> jstring)
     \<Rightarrow> ChatRequest option \<Rightarrow> completion \<times> fetch_request list" where
  "POST_chat e fetch JSON_parse unicodeUpper request_json =
     (if missing (GEMINI_API_KEY e) then
        (Returned \<lparr>status = 500, body = ErrorBody
           (lit ''Missing GEMINI_API_KEY environment variable. Add it to Vercel and local .env to enable live agent calls.'')\<rparr>,
         [])
      else
        (case request_json of
           None \<Rightarrow> (Threw, [])
         | Some req \<Rightarrow>
             if (case message req of None \<Rightarrow> True | Some m \<Rightarrow> trim m = []) then
               (Returned \<lparr>status = 400, body = ErrorBody (lit ''Message is required.'')\<rparr>, [])
             else
               let msg = nullish (message req) [];
                   call = chat_call unicodeUpper e req msg
               in (case fetch call of
                     FetchRejected \<Rightarrow> (Threw, [call])
                   | FetchResponse response \<Rightarrow>
                       if \<not> ok response then
                         (case up_text response of
                            None \<Rightarrow> (Threw, [call])
                          | Some error \<Rightarrow>
                              (Returned \<lparr>status = up_status response,
                                 body = ErrorDetailBody (lit ''Gemini API error'') error\<rparr>, [call]))
                       else
                         (case up_json response of
                            None \<Rightarrow> (Threw, [call])
                          | Some payload \<Rightarrow>
                              let rawText = extractText payload;
                                  parsed = safeJsonParse JSON_parse rawText
                              in (case (if truthy parsed then as_string (get_prop parsed (lit ''reply''))
                                        else None) of
                                    Some reply \<Rightarrow>
                                      (Returned \<lparr>status = 200,
                                         body = ReplyBody reply
                                                  (as_string (get_prop parsed (lit ''plan'')))\<rparr>, [call])
                                  | None \<Rightarrow>
                                      (Returned \<lparr>status = 200,
                                         body = ReplyBody
                                                  (or_else rawText (lit ''Gemini did not return a message.''))
                                                  None\<rparr>, [call]))))))"

definition autopilotPrompt :: "(jstring \<Rightarrow> jstring) \<Rightarrow> DesignRequest \<Rightarrow> jstring" where
  \<open>autopilotPrompt unicodeUpper req = trim (
     (lit ''\<newline>'')
     @ (lit ''You are the autonomous design autopilot for a Gemini Live mobile agent.\<newline>'')
     @ (lit ''Assess the current session for mode "'') @ nullish (d_modeId req) (lit ''unspecified'') @ (lit ''".\<newline>'')
     @ (lit ''\<newline>Context transcript:\<newline>'')
     @ or_else (transcript_of unicodeUpper (nullish (d_transcript req) [])) (lit ''No conversation captured.'')
     @ (lit ''\<newline>\<newline>Additional operator notes:\<newline>'')
     @ or_else (nullish (d_notes req) []) (lit ''No extra notes.'')
     @ (lit ''\<newline>\<newline>Output a crisp roadmap covering:\<newline>'')
     @ (lit ''1. UI/interaction adjustments (max 3 bullets)\<newline>'')
     @ (lit ''2. New or upgraded modes, including names and signature behaviors\<newline>'')
     @ (lit ''3. Integration or MCP connector opportunities with validation steps\<newline>'')
     @ (lit ''\<newline>Return markdown no longer than 220 words. Lean into agentic, actionable language.'')
     @ (lit ''\<newline>''))\<close>

definition design_call ::
  "(jstring \<Rightarrow> jstring) \<Rightarrow> env \<Rightarrow> DesignRequest \<Rightarrow> fetch_request" where
  "design_call unicodeUpper e req =
     \<lparr>api_base = nullish (GEMINI_API_BASE e) GEMINI_API_BASE_default,
      model = nullish (GEMINI_MODEL e) GEMINI_MODEL_default,
      key = nullish (GEMINI_API_KEY e) [],
      prompt = autopilotPrompt unicodeUpper req,
      temperature = 6 / 10, topP = 8 / 10, topK = 32\<rparr>"

definition POST_design ::
  "env \<Rightarrow> (fetch_request \<Rightarrow> fetch_result) \<Rightarrow> (jstring \<Rightarrow> jstring) \<Rightarrow> DesignRequest option
     \<Rightarrow> completion \<times> fetch_request list" where
  "POST_design e fetch unicodeUpper request_json =
     (if missing (GEMINI_API_KEY e) then
        (Returned \<lparr>status = 500, body = ErrorBody
           (lit ''Missing GEMINI_API_KEY environment variable. Add it to use the design autopilot.'')\<rparr>,
         [])
      else
        (case request_json of
           None \<Rightarrow> (Threw, [])
         | Some req \<Rightarrow>
             let call = design_call unicodeUpper e req
             in (case fetch call of
                   FetchRejected \<Rightarrow> (Threw, [call])
                 | FetchResponse response \<Rightarrow>
                     if \<not> ok response then
                       (case up_text response of
                          None \<Rightarrow> (Threw, [call])
                        | Some detail \<Rightarrow>
                            (Returned \<lparr>status = up_status response,
                               body = ErrorDetailBody (lit ''Gemini design autopilot error'') detail\<rparr>,
                             [call]))
                     else
                       (case up_json response of
                          None \<Rightarrow> (Threw, [call])
                        | Some payload \<Rightarrow>
                            (Returned \<lparr>status = 200, body = ProposalBody (extractText payload)\<rparr>,
                             [call])))))"

section \<open>The session controller\<close>

text \<open>
  The page component keeps its state in hooks; a handler reads the values of the render
  it was created in and writes through the setters. The model passes one record through
  every handler. It holds the hook state the submit and design handlers read or write
  (the listening flags and the connector list are left out) and what the browser keeps
  for the page: how many UUIDs and abort controllers have been handed out (the next one
  is named by that number), which controllers have been aborted, and which requests have
  not completed. A message carries the number of its UUID as identifier, and one clock
  reading serves a whole run of a handler.
\<close>

record Message = Turn +
  msgId :: nat
  createdAt :: nat
  msgModeId :: jstring

record Capability =
  cap_id :: jstring
  label :: jstring
  detail :: jstring

record Mode =
  mode_id :: jstring
  name :: jstring
  accent :: jstring
  description :: jstring
  mode_systemPrompt :: jstring
  capabilities :: "Capability list"
  voice :: "jstring option"

record state =
  modes :: "Mode list"
  currentModeId :: jstring
  messages :: "Message list"
  pendingInput :: jstring
  isStreaming :: bool
  designNotes :: jstring
  designOutput :: "jstring option"
  designLoading :: bool
  recorderAbortRef :: "nat option"
  uuids :: nat
  controllers :: nat
  aborted :: "nat list"
  pending :: "(nat \<times> jstring) list"
  designPending :: nat

definition research_navigator :: Mode where
  "research_navigator =
     \<lparr>mode_id = (lit ''research-navigator''),
      name = (lit ''Research Navigator''),
      accent = (lit ''from-emerald-400 to-cyan-500''),
      description = (lit ''Synthesizes live research, MCP knowledge bases, and streaming docs to answer with citations and action items.''),
      mode_systemPrompt = (lit ''You are Research Navigator, an always-on research lieutenant. Maintain accurate citations, cite sources inline when possible, and surface unknowns that need human validation. Ask clarifying questions if scope is ambiguous.''),
      capabilities =
        [\<lparr>cap_id = (lit ''live-research''), label = (lit ''Live Research''),
           detail = (lit ''Streams in-progress findings and linkouts.'')\<rparr>,
         \<lparr>cap_id = (lit ''citation-guard''), label = (lit ''Citation Guard''),
           detail = (lit ''Auto-cites MCP evidence and flags low-confidence claims.'')\<rparr>,
         \<lparr>cap_id = (lit ''huddle-sync''), label = (lit ''Huddle Sync''),
           detail = (lit ''Summarizes team huddles into MCP knowledge updates.'')\<rparr>],
      voice = None\<rparr>"

definition creative_director :: Mode where
  "creative_director =
     \<lparr>mode_id = (lit ''creative-director''),
      name = (lit ''Creative Director''),
      accent = (lit ''from-fuchsia-400 to-violet-500''),
      description = (lit ''Co-designs visuals, voiceovers, and layout updates in real time with Gemini multimodal responses.''),
      mode_systemPrompt = (lit ''You are Creative Director Mode. Lead with bold creative direction, propose high-impact campaigns, and provide quick mood-board descriptions. Suggest UI rewrites that keep the agentic design cohesive.''),
      capabilities =
        [\<lparr>cap_id = (lit ''layout-shaper''), label = (lit ''Layout Sculptor''),
           detail = (lit ''Suggests responsive layout changes and component swaps.'')\<rparr>,
         \<lparr>cap_id = (lit ''palette-propulsion''), label = (lit ''Palette Propulsion''),
           detail = (lit ''Explores gradients, depth lighting, and glassmorphism.'')\<rparr>,
         \<lparr>cap_id = (lit ''voiceover-lab''), label = (lit ''Voiceover Lab''),
           detail = (lit ''Drafts scripts and performance notes for speech playback.'')\<rparr>],
      voice = None\<rparr>"

definition flow_coach :: Mode where
  "flow_coach =
     \<lparr>mode_id = (lit ''flow-coach''),
      name = (lit ''Flow Coach''),
      accent = (lit ''from-amber-400 to-rose-500''),
      description = (lit ''Guides rituals, habits, and operational handoffs with multi-turn planning and gentle accountability.''),
      mode_systemPrompt = (lit ''You are Flow Coach Mode. Coach with empathy, structure action plans, offer check-ins, and adapt cadence per user energy. Sustain agentic tone and suggest automations when a task repeats.''),
      capabilities =
        [\<lparr>cap_id = (lit ''tempo-scan''), label = (lit ''Tempo Scan''),
           detail = (lit ''Reads user sentiment and adjusts coaching cadence.'')\<rparr>,
         \<lparr>cap_id = (lit ''ritual-builder''), label = (lit ''Ritual Builder''),
           detail = (lit ''Designs recurring flows with MCP automations.'')\<rparr>,
         \<lparr>cap_id = (lit ''handoff-protocol''), label = (lit ''Handoff Protocol''),
           detail = (lit ''Drafts MCP-ready SOPs for delegation.'')\<rparr>],
      voice = None\<rparr>"

definition defaultModes :: "Mode list" where
  "defaultModes = [research_navigator, creative_director, flow_coach]"

text \<open>The state of the first render.\<close>

definition initial :: state where
  "initial =
     \<lparr>modes = defaultModes, currentModeId = (lit ''research-navigator''), messages = [],
      pendingInput = [], isStreaming = False, designNotes = [], designOutput = None,
      designLoading = False, recorderAbortRef = None, uuids = 0, controllers = 0,
      aborted = [], pending = [], designPending = 0\<rparr>"

text \<open>
  \<^verbatim>\<open>modes.find((mode) => mode.id === currentModeId) ?? modes[0]\<close>. With no mode at all
  the value is \<^verbatim>\<open>undefined\<close> and the component cannot render: \<open>None\<close>.
\<close>

definition currentMode :: "state \<Rightarrow> Mode option" where
  "currentMode s =
     (case find (\<lambda>mode. mode_id mode = currentModeId s) (modes s) of
        Some mode \<Rightarrow> Some mode
      | None \<Rightarrow> (case modes s of [] \<Rightarrow> None | mode # _ \<Rightarrow> Some mode))"

text \<open>The wire form of a message: \<^verbatim>\<open>(entry) => ({role: entry.role, content: entry.content})\<close>.\<close>

definition role_content :: "Message \<Rightarrow> Turn" where
  "role_content entry = \<lparr>role = role entry, content = content entry\<rparr>"

text \<open>What a handler asks of the browser, in the order it asks.\<close>

datatype effect =
    AbortController nat
  | FetchChat nat ChatRequest
  | FetchDesign DesignRequest
  | Speak jstring

text \<open>
  A thrown value is an \<^verbatim>\<open>Error\<close> with its message, or something else. A request
  completes by rejecting, or by a response with its \<^verbatim>\<open>ok\<close> flag, its status text and
  what \<^verbatim>\<open>response.json()\<close> gives.
\<close>

datatype thrown = ErrorInstance jstring | NotAnError

datatype 'a fetch_outcome = Failed thrown | Answered bool jstring "thrown + 'a"

text \<open>The \<^verbatim>\<open>try\<close> block after the request: the value it reaches or the value it throws.\<close>

fun try_result :: "'a fetch_outcome \<Rightarrow> jstring \<Rightarrow> thrown + 'a" where
  "try_result (Failed e) failure = Inl e"
| "try_result (Answered okay statusText js) failure =
     (if \<not> okay then Inl (ErrorInstance (failure @ statusText)) else js)"

text \<open>
  \<^verbatim>\<open>handleSubmit\<close> up to its first \<^verbatim>\<open>await\<close>. \<open>mode\<close> is the current mode of the
  render, \<open>now\<close> the clock reading.
\<close>

definition handleSubmit :: "Mode \<Rightarrow> state \<Rightarrow> jstring option \<Rightarrow> nat \<Rightarrow> state \<times> effect list" where
  "handleSubmit mode s contentOverride now =
     (let content = trim (nullish contentOverride (pendingInput s)) in
      if content = [] then (s, [])
      else
        let newMessage = \<lparr>role = (lit ''user''), content = content, msgId = uuids s,
                            createdAt = now, msgModeId = currentModeId s\<rparr>;
            controller = controllers s;
            payload = \<lparr>message = Some content, modeId = Some (currentModeId s),
                       systemPrompt = Some (mode_systemPrompt mode),
                       conversation = Some (map role_content (messages s @ [newMessage]))\<rparr>
        in (s\<lparr>messages := messages s @ [newMessage],
               pendingInput := [],
               isStreaming := True,
               uuids := uuids s + 1,
               aborted := (case recorderAbortRef s of None \<Rightarrow> aborted s | Some c \<Rightarrow> c # aborted s),
               controllers := controllers s + 1,
               recorderAbortRef := Some controller,
               pending := pending s @ [(controller, currentModeId s)]\<rparr>,
            (case recorderAbortRef s of None \<Rightarrow> [] | Some c \<Rightarrow> [AbortController c])
            @ [FetchChat controller payload]))"

text \<open>
  The rest of \<^verbatim>\<open>handleSubmit\<close>, run when the request completes. \<open>mid\<close> is the mode
  identifier the handler captured when it was called.
\<close>

definition handleSubmit_resume ::
  "jstring \<Rightarrow> state \<Rightarrow> (jstring \<times> jstring option) fetch_outcome \<Rightarrow> nat \<Rightarrow> state \<times> effect list" where
  "handleSubmit_resume mid s outcome now =
     (case try_result outcome (lit ''Gemini Live request failed: '') of
        Inr (reply, plan) \<Rightarrow>
          let assistantMessage = \<lparr>role = (lit ''assistant''), content = reply, msgId = uuids s,
                                  createdAt = now, msgModeId = mid\<rparr>;
              withAssistant = messages s @ [assistantMessage]
          in (if nullish plan [] \<noteq> [] then
                s\<lparr>messages := withAssistant @
                     [\<lparr>role = (lit ''system''), content = nullish plan [], msgId = uuids s + 1,
                       createdAt = now, msgModeId = mid\<rparr>],
                   uuids := uuids s + 2, isStreaming := False\<rparr>
              else
                s\<lparr>messages := withAssistant, uuids := uuids s + 1, isStreaming := False\<rparr>,
              [Speak reply])
      | Inl error \<Rightarrow>
          (s\<lparr>messages := messages s @
                [\<lparr>role = (lit ''system''),
                  content = (case error of
                               ErrorInstance msg \<Rightarrow> (lit ''Gemini live agent error: '') @ msg
                             | NotAnError \<Rightarrow> (lit ''Gemini live agent error: unknown'')),
                  msgId = uuids s, createdAt = now, msgModeId = mid\<rparr>],
              uuids := uuids s + 1, isStreaming := False\<rparr>,
           []))"

text \<open>\<^verbatim>\<open>handleDesignSynthesis\<close> up to its \<^verbatim>\<open>await\<close>, and the rest of it.\<close>

definition handleDesignSynthesis :: "state \<Rightarrow> state \<times> effect list" where
  "handleDesignSynthesis s =
     (let scratch = trim (designNotes s) in
      if scratch = [] \<and> length (messages s) = 0 then (s, [])
      else
        (s\<lparr>designLoading := True, designPending := designPending s + 1\<rparr>,
         [FetchDesign \<lparr>d_modeId = Some (currentModeId s), d_notes = Some scratch,
                       d_transcript = Some (map role_content (slice (- 6) (messages s)))\<rparr>]))"

definition handleDesignSynthesis_resume :: "state \<Rightarrow> jstring fetch_outcome \<Rightarrow> state" where
  "handleDesignSynthesis_resume s outcome =
     (case try_result outcome (lit ''Design call failed: '') of
        Inr proposal \<Rightarrow>
          s\<lparr>designOutput := Some proposal, designLoading := False,
            designPending := designPending s - 1\<rparr>
      | Inl error \<Rightarrow>
          s\<lparr>designOutput := Some (case error of ErrorInstance msg \<Rightarrow> msg
                                   | NotAnError \<Rightarrow> (lit ''Unknown error'')),
            designLoading := False, designPending := designPending s - 1\<rparr>)"

text \<open>
  What can happen to the page: a submission (the send button calls the handler without an
  override; speech recognition calls it with the finished text, also while a request is
  streaming), the completion of a chat request, an edit of the input or of the notes, the
  choice of a mode, a click on the design button and the completion of its request.

  Three more actions write fields of the record and are kept as far as they do. Adding a
  mode appends the mode it has built (here given with the event), makes it current and
  clears the design output and the notes; it draws two UUIDs. Adding a connector needs
  notes that are not blank, clears them and draws one UUID. When the speech voices
  arrive, every mode without a voice gets the chosen one.
\<close>

datatype event =
    Submit "jstring option" nat
  | ChatSettled nat "(jstring \<times> jstring option) fetch_outcome" nat
  | InputChanged jstring
  | ModeSelected jstring
  | NotesChanged jstring
  | DesignRequested
  | DesignSettled "jstring fetch_outcome"
  | ModeAdded Mode
  | ConnectorAdded
  | VoicesChanged "jstring option"

text \<open>
  The browser rejects the promises of a request whose controller has been aborted: such a
  request completes by \<^verbatim>\<open>fetch\<close> rejecting or, once the response has arrived with a
  success status, by \<^verbatim>\<open>response.json()\<close> rejecting.
\<close>

fun rejects :: "'a fetch_outcome \<Rightarrow> bool" where
  "rejects (Failed e) = True"
| "rejects (Answered okay statusText (Inl e)) = okay"
| "rejects (Answered okay statusText (Inr v)) = False"

text \<open>
  One event. \<open>None\<close> marks an event that cannot happen in the state: a submission on a
  page that could not render, the completion of a request that is not in flight, a
  response delivered for an aborted request.
\<close>

fun step :: "state \<Rightarrow> event \<Rightarrow> (state \<times> effect list) option" where
  "step s (Submit contentOverride now) =
     (case currentMode s of
        None \<Rightarrow> None
      | Some mode \<Rightarrow> Some (handleSubmit mode s contentOverride now))"
| "step s (ChatSettled c outcome now) =
     (case map_of (pending s) c of
        None \<Rightarrow> None
      | Some mid \<Rightarrow>
          if c \<in> set (aborted s) \<and> \<not> rejects outcome then None
          else Some (handleSubmit_resume mid
                       (s\<lparr>pending := filter (\<lambda>p. fst p \<noteq> c) (pending s)\<rparr>) outcome now))"
| "step s (InputChanged v) = Some (s\<lparr>pendingInput := v\<rparr>, [])"
| "step s (ModeSelected m) = Some (s\<lparr>currentModeId := m\<rparr>, [])"
| "step s (NotesChanged v) = Some (s\<lparr>designNotes := v\<rparr>, [])"
| "step s DesignRequested = Some (handleDesignSynthesis s)"
| "step s (DesignSettled outcome) =
     (if designPending s = 0 then None else Some (handleDesignSynthesis_resume s outcome, []))"
| "step s (ModeAdded newMode) =
     Some (s\<lparr>modes := modes s @ [newMode], currentModeId := mode_id newMode,
              designOutput := None, designNotes := [], uuids := uuids s + 2\<rparr>, [])"
| "step s ConnectorAdded =
     (if trim (designNotes s) = [] then Some (s, [])
      else Some (s\<lparr>designNotes := [], uuids := uuids s + 1\<rparr>, []))"
| "step s (VoicesChanged chosen) =
     Some (s\<lparr>modes := map (\<lambda>mode. mode\<lparr>voice := (case voice mode of
                                                       None \<Rightarrow> chosen
                                                     | Some v \<Rightarrow> Some v)\<rparr>) (modes s)\<rparr>, [])"

text \<open>A session: the events in order, from a state. The effects are collected.\<close>

fun run :: "state \<Rightarrow> event list \<Rightarrow> (state \<times> effect list) option" where
  "run s [] = Some (s, [])"
| "run s (ev # evs) =
     (case step s ev of
        None \<Rightarrow> None
      | Some (s', fx) \<Rightarrow>
          (case run s' evs of None \<Rightarrow> None | Some (s'', fx') \<Rightarrow> Some (s'', fx @ fx')))"

text \<open>
  The invariant of a session: there is a mode to render; a request in flight that has not
  been aborted is the one whose controller the ref holds, so there is at most one; and
  every controller in use is numbered below the next free number.
\<close>

definition single_flight :: "state \<Rightarrow> bool" where
  "single_flight s =
     (modes s \<noteq> []
      \<and> list_all (\<lambda>p. fst p < controllers s
                        \<and> (recorderAbortRef s = Some (fst p) \<or> fst p \<in> set (aborted s)))
           (pending s)
      \<and> list_all (\<lambda>c. c < controllers s) (aborted s)
      \<and> (case recorderAbortRef s of None \<Rightarrow> True | Some c \<Rightarrow> c < controllers s))"

text \<open>The history of a session in wire form; empty when the events could not happen.\<close>

definition session_log :: "(state \<times> effect list) option \<Rightarrow> Turn list" where
  "session_log r = (case r of None \<Rightarrow> [] | Some (s, fx) \<Rightarrow> map role_content (messages s))"

section \<open>Properties of the route handlers\<close>

subsection \<open>Helper facts\<close>

lemma unat_of_char: "unat (of_char c :: 16 word) = of_char c"
proof -
  have "(of_char c :: 16 word) = of_nat (of_char c)" by (simp only: of_nat_of_char)
  moreover have "(of_char c :: nat) < 65536"
    using nat_of_char_less_256 [of c] by linarith
  ultimately show ?thesis by (simp add: unat_of_nat)
qed

lemma lit_eq_iff [simp]: "lit a = lit b \<longleftrightarrow> a = b"
proof
  assume "lit a = lit b"
  then have "map unat (lit a) = map unat (lit b)" by simp
  moreover have "unat \<circ> (of_char :: char \<Rightarrow> 16 word) = of_char"
    by (simp add: fun_eq_iff unat_of_char)
  ultimately have "map (of_char :: char \<Rightarrow> nat) a = map of_char b"
    by (simp add: lit_def)
  then show "a = b"
    using inj_of_char [where ?'a = nat] by (simp add: inj_map_eq_map)
qed simp

lemma lit_append: "lit a @ lit b = lit (a @ b)"
  by (simp add: lit_def)

lemma lit_append2: "lit a @ lit b @ r = lit (a @ b) @ r"
  by (simp add: lit_def)

lemma lit_eq_Nil [simp]: "lit a = [] \<longleftrightarrow> a = []" "[] = lit a \<longleftrightarrow> a = []"
  by (auto simp: lit_def)

lemma join_empty_sep: "join [] xs = concat xs"
  by (induction "[] :: jstring" xs rule: join.induct) simp_all

lemma trimStart_empty_iff: "trimStart s = [] \<longleftrightarrow> (\<forall>c\<in>set s. isWhiteSpace c)"
  by (simp add: trimStart_def dropWhile_eq_Nil_conv)

lemma trimEnd_empty_iff: "trimEnd s = [] \<longleftrightarrow> (\<forall>c\<in>set s. isWhiteSpace c)"
  by (simp add: trimEnd_def dropWhile_eq_Nil_conv)

lemma trim_empty_iff: "trim s = [] \<longleftrightarrow> (\<forall>c\<in>set s. isWhiteSpace c)"
proof
  assume "trim s = []"
  then have "\<forall>c\<in>set (trimStart s). isWhiteSpace c"
    by (simp add: trim_def trimEnd_empty_iff)
  moreover have "dropWhile isWhiteSpace s \<noteq> [] \<Longrightarrow> \<not> isWhiteSpace (hd (dropWhile isWhiteSpace s))"
    by (rule hd_dropWhile)
  ultimately have "trimStart s = []"
    unfolding trimStart_def by (cases "dropWhile isWhiteSpace s") auto
  then show "\<forall>c\<in>set s. isWhiteSpace c" by (simp add: trimStart_empty_iff)
next
  assume "\<forall>c\<in>set s. isWhiteSpace c"
  then have "trimStart s = []" by (simp add: trimStart_empty_iff)
  then show "trim s = []" by (simp add: trim_def trimEnd_def)
qed

text \<open>Once the credential and the message pass and the upstream answers with a success
  status and a readable body, only the interpretation of the extracted text is left.\<close>

lemma POST_chat_ok:
  assumes "\<not> missing (GEMINI_API_KEY e)"
    and "message req = Some m" and "trim m \<noteq> []"
    and "fetch (chat_call unicodeUpper e req m) = FetchResponse response"
    and "ok response" and "up_json response = Some payload"
  shows "POST_chat e fetch JSON_parse unicodeUpper (Some req) =
           (let rawText = extractText payload;
                parsed = safeJsonParse JSON_parse rawText
            in (case (if truthy parsed then as_string (get_prop parsed (lit ''reply'')) else None) of
                  Some reply \<Rightarrow>
                    (Returned \<lparr>status = 200,
                       body = ReplyBody reply (as_string (get_prop parsed (lit ''plan'')))\<rparr>,
                     [chat_call unicodeUpper e req m])
                | None \<Rightarrow>
                    (Returned \<lparr>status = 200,
                       body = ReplyBody (or_else rawText (lit ''Gemini did not return a message.'')) None\<rparr>,
                     [chat_call unicodeUpper e req m])))"
  using assms by (simp add: POST_chat_def nullish_def Let_def)

lemma as_string_Some_iff: "as_string v = Some s \<longleftrightarrow> v = Some (JString s)"
  by (cases v rule: as_string.cases) simp_all

lemma string_reply_iff:
  "as_string (get_prop parsed (lit ''reply'')) \<noteq> None
     \<longleftrightarrow> (\<exists>kvs r. parsed = JObject kvs \<and> map_of kvs (lit ''reply'') = Some (JString r))"
  by (cases parsed) (auto simp: as_string_Some_iff)

subsection \<open>Interpreting the extracted text\<close>

text \<open>
  Claim C1. When the text extracted from the upstream payload parses to an object whose
  \<open>reply\<close> entry is a string, the chat route answers 200 with exactly that reply; the
  answer carries the parsed \<open>plan\<close> when that entry is a string and no plan in every
  other case (entry absent, or of another type).
\<close>

theorem chat_reply_from_json:
  assumes "\<not> missing (GEMINI_API_KEY e)"
    and "message req = Some m" and "trim m \<noteq> []"
    and "fetch (chat_call unicodeUpper e req m) = FetchResponse response"
    and "ok response" and "up_json response = Some payload"
    and "JSON_parse (extractText payload) = Some (JObject kvs)"
    and "map_of kvs (lit ''reply'') = Some (JString r)"
  shows "POST_chat e fetch JSON_parse unicodeUpper (Some req) =
           (Returned \<lparr>status = 200,
              body = ReplyBody r (case map_of kvs (lit ''plan'') of Some (JString p) \<Rightarrow> Some p | _ \<Rightarrow> None)\<rparr>,
            [chat_call unicodeUpper e req m])"
proof -
  have p: "safeJsonParse JSON_parse (extractText payload) = JObject kvs"
    using assms(7) by (simp add: safeJsonParse_def)
  have pl: "as_string (map_of kvs (lit ''plan''))
              = (case map_of kvs (lit ''plan'') of Some (JString p) \<Rightarrow> Some p | _ \<Rightarrow> None)"
    by (cases "map_of kvs (lit ''plan'')" rule: as_string.cases) simp_all
  show ?thesis
    using assms(8) pl
    by (simp add: POST_chat_ok [where fetch = fetch and JSON_parse = JSON_parse, OF assms(1-6)]
        p Let_def)
qed

theorem chat_reply_from_json_witness:
  \<open>POST_chat \<lparr>GEMINI_API_KEY = Some (lit ''k''), GEMINI_MODEL = None, GEMINI_API_BASE = None\<rparr>
     (\<lambda>call. FetchResponse \<lparr>up_status = 200, up_text = None, up_json = Some \<lparr>candidates = Some
        [\<lparr>c_content = Some \<lparr>parts = Some
           [\<lparr>p_text = Some (lit ''{"reply":"Hello",'')\<rparr>, \<lparr>p_text = Some (lit ''"plan":"- step one"}'')\<rparr>]\<rparr>\<rparr>]\<rparr>\<rparr>)
     (map_of [((lit ''{"reply":"Hello","plan":"- step one"}''),
               JObject [((lit ''reply''), JString (lit ''Hello'')), ((lit ''plan''), JString (lit ''- step one''))])])
     (map upperAscii)
     (Some \<lparr>message = Some (lit ''hi''), modeId = None, systemPrompt = None, conversation = None\<rparr>)
   = (Returned \<lparr>status = 200, body = ReplyBody (lit ''Hello'') (Some (lit ''- step one''))\<rparr>,
      [chat_call (map upperAscii) \<lparr>GEMINI_API_KEY = Some (lit ''k''), GEMINI_MODEL = None, GEMINI_API_BASE = None\<rparr>
         \<lparr>message = Some (lit ''hi''), modeId = None, systemPrompt = None, conversation = None\<rparr> (lit ''hi'')])\<close>
proof -
  let ?e = "\<lparr>GEMINI_API_KEY = Some (lit ''k''), GEMINI_MODEL = None, GEMINI_API_BASE = None\<rparr>"
  let ?req = "\<lparr>message = Some (lit ''hi''), modeId = None, systemPrompt = None, conversation = None\<rparr>"
  let ?payload = \<open>\<lparr>candidates = Some
        [\<lparr>c_content = Some \<lparr>parts = Some
           [\<lparr>p_text = Some (lit ''{"reply":"Hello",'')\<rparr>, \<lparr>p_text = Some (lit ''"plan":"- step one"}'')\<rparr>]\<rparr>\<rparr>]\<rparr>\<close>
  let ?response = "\<lparr>up_status = 200, up_text = None, up_json = Some ?payload\<rparr>"
  let ?kvs = "[((lit ''reply''), JString (lit ''Hello'')), ((lit ''plan''), JString (lit ''- step one''))]"
  let ?parse = \<open>map_of [((lit ''{"reply":"Hello","plan":"- step one"}''), JObject ?kvs)]\<close>
  have h1: "\<not> missing (GEMINI_API_KEY ?e)" by (simp add: missing_def lit_def)
  have h2: "message ?req = Some (lit ''hi'')" by simp
  have h3: "trim (lit ''hi'') \<noteq> []" by (simp add: trim_def trimStart_def trimEnd_def isWhiteSpace_def lit_def)
  have h4: "(\<lambda>call. FetchResponse ?response) (chat_call (map upperAscii) ?e ?req (lit ''hi'')) = FetchResponse ?response"
    by simp
  have h5: "ok ?response" by (simp add: ok_def)
  have h6: "up_json ?response = Some ?payload" by simp
  have h7: "?parse (extractText ?payload) = Some (JObject ?kvs)"
    by (simp add: extractText_def nullish_def lit_def)
  have h8: "map_of ?kvs (lit ''reply'') = Some (JString (lit ''Hello''))" by simp
  show ?thesis
    using chat_reply_from_json [where fetch = "\<lambda>call. FetchResponse ?response"
        and JSON_parse = ?parse and unicodeUpper = "map upperAscii", OF h1 h2 h3 h4 h5 h6 h7 h8]
    by (simp add: lit_def)
qed

text \<open>
  Claim C2. When the extracted text does not parse to an object with a string \<open>reply\<close>
  (the parser throws, or gives another value, or the entry is missing or no string), the
  chat route answers 200 with the extracted text itself as the reply and no plan; for the
  empty text the reply is the fixed placeholder. On this path the reply is never empty.
\<close>

theorem chat_reply_fallback:
  assumes "\<not> missing (GEMINI_API_KEY e)"
    and "message req = Some m" and "trim m \<noteq> []"
    and "fetch (chat_call unicodeUpper e req m) = FetchResponse response"
    and "ok response" and "up_json response = Some payload"
    and "\<not> (\<exists>kvs r. JSON_parse (extractText payload) = Some (JObject kvs)
                     \<and> map_of kvs (lit ''reply'') = Some (JString r))"
  shows "POST_chat e fetch JSON_parse unicodeUpper (Some req) =
           (Returned \<lparr>status = 200,
              body = ReplyBody (if extractText payload = [] then (lit ''Gemini did not return a message.'')
                                else extractText payload) None\<rparr>,
            [chat_call unicodeUpper e req m])
         \<and> (if extractText payload = [] then (lit ''Gemini did not return a message.'')
             else extractText payload) \<noteq> []"
proof -
  have "as_string (get_prop (safeJsonParse JSON_parse (extractText payload)) (lit ''reply'')) = None"
  proof (rule ccontr)
    assume "as_string (get_prop (safeJsonParse JSON_parse (extractText payload)) (lit ''reply'')) \<noteq> None"
    then obtain kvs r where "safeJsonParse JSON_parse (extractText payload) = JObject kvs"
      and "map_of kvs (lit ''reply'') = Some (JString r)"
      unfolding string_reply_iff by blast
    then show False using assms(7)
      by (auto simp: safeJsonParse_def split: option.splits)
  qed
  then have n: "(if truthy (safeJsonParse JSON_parse (extractText payload))
                 then as_string (get_prop (safeJsonParse JSON_parse (extractText payload)) (lit ''reply''))
                 else None) = None"
    by simp
  show ?thesis
    unfolding POST_chat_ok [where fetch = fetch and JSON_parse = JSON_parse, OF assms(1-6)]
      Let_def n
    by (simp add: or_else_def lit_def)
qed

theorem chat_reply_fallback_witness:
  \<open>POST_chat \<lparr>GEMINI_API_KEY = Some (lit ''k''), GEMINI_MODEL = None, GEMINI_API_BASE = None\<rparr>
     (\<lambda>call. FetchResponse \<lparr>up_status = 200, up_text = None, up_json = Some \<lparr>candidates = Some []\<rparr>\<rparr>)
     (map_of [((lit ''{"reply":"Hello"}''), JObject [((lit ''reply''), JString (lit ''Hello''))])])
     (map upperAscii)
     (Some \<lparr>message = Some (lit ''hi''), modeId = None, systemPrompt = None, conversation = None\<rparr>)
   = (Returned \<lparr>status = 200, body = ReplyBody (lit ''Gemini did not return a message.'') None\<rparr>,
      [chat_call (map upperAscii) \<lparr>GEMINI_API_KEY = Some (lit ''k''), GEMINI_MODEL = None, GEMINI_API_BASE = None\<rparr>
         \<lparr>message = Some (lit ''hi''), modeId = None, systemPrompt = None, conversation = None\<rparr> (lit ''hi'')])\<close>
proof -
  let ?e = "\<lparr>GEMINI_API_KEY = Some (lit ''k''), GEMINI_MODEL = None, GEMINI_API_BASE = None\<rparr>"
  let ?req = "\<lparr>message = Some (lit ''hi''), modeId = None, systemPrompt = None, conversation = None\<rparr>"
  let ?payload = "\<lparr>candidates = Some []\<rparr>"
  let ?response = "\<lparr>up_status = 200, up_text = None, up_json = Some ?payload\<rparr>"
  let ?parse = \<open>map_of [((lit ''{"reply":"Hello"}''), JObject [((lit ''reply''), JString (lit ''Hello''))])]\<close>
  have x: "extractText ?payload = []" by (simp add: extractText_def nullish_def)
  have h1: "\<not> missing (GEMINI_API_KEY ?e)" by (simp add: missing_def lit_def)
  have h2: "message ?req = Some (lit ''hi'')" by simp
  have h3: "trim (lit ''hi'') \<noteq> []" by (simp add: trim_def trimStart_def trimEnd_def isWhiteSpace_def lit_def)
  have h4: "(\<lambda>call. FetchResponse ?response) (chat_call (map upperAscii) ?e ?req (lit ''hi'')) = FetchResponse ?response"
    by simp
  have h5: "ok ?response" by (simp add: ok_def)
  have h6: "up_json ?response = Some ?payload" by simp
  have h7: "\<not> (\<exists>kvs r. ?parse (extractText ?payload) = Some (JObject kvs)
                     \<and> map_of kvs (lit ''reply'') = Some (JString r))"
    by (simp add: x lit_def)
  show ?thesis
    using chat_reply_fallback [where fetch = "\<lambda>call. FetchResponse ?response"
        and JSON_parse = ?parse and unicodeUpper = "map upperAscii", OF h1 h2 h3 h4 h5 h6 h7]
    by (simp add: x)
qed

text \<open>
  The guarantee of a non-empty reply belongs to the fallback path alone: a parsed object
  whose \<open>reply\<close> is the empty string takes the structured path and is returned as it is.
\<close>

lemma empty_string_reply_is_returned:
  assumes "\<not> missing (GEMINI_API_KEY e)"
    and "message req = Some m" and "trim m \<noteq> []"
    and "fetch (chat_call unicodeUpper e req m) = FetchResponse response"
    and "ok response" and "up_json response = Some payload"
    and "JSON_parse (extractText payload) = Some (JObject [((lit ''reply''), JString [])])"
  shows "POST_chat e fetch JSON_parse unicodeUpper (Some req) =
           (Returned \<lparr>status = 200, body = ReplyBody [] None\<rparr>, [chat_call unicodeUpper e req m])"
  using assms(7)
  by (simp add: POST_chat_ok [where fetch = fetch and JSON_parse = JSON_parse, OF assms(1-6)]
      safeJsonParse_def Let_def lit_def)

subsection \<open>Guards before any upstream call\<close>

text \<open>
  Claim C3. With the credential unset (or set to the empty string), either route answers
  500 with its fixed configuration error, whatever the request and whatever the upstream
  would have said, and the list of upstream calls is empty.
\<close>

theorem missing_credential_no_call:
  assumes "missing (GEMINI_API_KEY e)"
  shows "POST_chat e fetch JSON_parse unicodeUpper request_json =
           (Returned \<lparr>status = 500, body = ErrorBody
              (lit ''Missing GEMINI_API_KEY environment variable. Add it to Vercel and local .env to enable live agent calls.'')\<rparr>, [])
         \<and> POST_design e fetch' unicodeUpper' request_json' =
           (Returned \<lparr>status = 500, body = ErrorBody
              (lit ''Missing GEMINI_API_KEY environment variable. Add it to use the design autopilot.'')\<rparr>, [])"
  using assms by (simp add: POST_chat_def POST_design_def)

theorem missing_credential_no_call_witness:
  "missing (GEMINI_API_KEY \<lparr>GEMINI_API_KEY = None, GEMINI_MODEL = None, GEMINI_API_BASE = None\<rparr>)
   \<and> snd (POST_chat \<lparr>GEMINI_API_KEY = None, GEMINI_MODEL = None, GEMINI_API_BASE = None\<rparr>
        (\<lambda>call. FetchRejected) (\<lambda>s. None) (map upperAscii)
        (Some \<lparr>message = Some (lit ''hi''), modeId = None, systemPrompt = None, conversation = None\<rparr>)) = []
   \<and> snd (POST_design \<lparr>GEMINI_API_KEY = None, GEMINI_MODEL = None, GEMINI_API_BASE = None\<rparr>
        (\<lambda>call. FetchRejected) (map upperAscii)
        (Some \<lparr>d_modeId = None, d_notes = None, d_transcript = None\<rparr>)) = []"
proof -
  have h: "missing (GEMINI_API_KEY \<lparr>GEMINI_API_KEY = None, GEMINI_MODEL = None, GEMINI_API_BASE = None\<rparr>)"
    by (simp add: missing_def)
  show ?thesis
    using h missing_credential_no_call [where fetch = "\<lambda>call. FetchRejected"
        and fetch' = "\<lambda>call. FetchRejected" and JSON_parse = "\<lambda>s. None"
        and unicodeUpper = "map upperAscii" and unicodeUpper' = "map upperAscii", OF h]
    by simp
qed

text \<open>
  Claim C4. With the credential configured, a chat request whose message consists of
  white space only, in the sense of \<^verbatim>\<open>trim\<close> (the empty message included), is
  answered 400 with the body \<open>{error: "Message is required."}\<close>, and the list of
  upstream calls is empty.
\<close>

theorem blank_message_rejected:
  assumes "\<not> missing (GEMINI_API_KEY e)"
    and "message req = Some m" and "\<forall>c\<in>set m. isWhiteSpace c"
  shows "POST_chat e fetch JSON_parse unicodeUpper (Some req) =
           (Returned \<lparr>status = 400, body = ErrorBody (lit ''Message is required.'')\<rparr>, [])"
  using assms by (simp add: POST_chat_def trim_empty_iff)

theorem blank_message_rejected_witness:
  "POST_chat \<lparr>GEMINI_API_KEY = Some (lit ''k''), GEMINI_MODEL = None, GEMINI_API_BASE = None\<rparr>
     (\<lambda>call. FetchRejected) (\<lambda>s. None) (map upperAscii)
     (Some \<lparr>message = Some (lit ''  '' @ [0x00A0, 0x2028, 0xFEFF, 0x2003] @ lit ''\<newline>''),
            modeId = None, systemPrompt = None, conversation = None\<rparr>)
   = (Returned \<lparr>status = 400, body = ErrorBody (lit ''Message is required.'')\<rparr>, [])"
proof -
  let ?e = "\<lparr>GEMINI_API_KEY = Some (lit ''k''), GEMINI_MODEL = None, GEMINI_API_BASE = None\<rparr>"
  let ?m = "lit ''  '' @ [0x00A0, 0x2028, 0xFEFF, 0x2003] @ lit ''\<newline>''"
  let ?req = "\<lparr>message = Some ?m, modeId = None, systemPrompt = None, conversation = None\<rparr>"
  have h1: "\<not> missing (GEMINI_API_KEY ?e)" by (simp add: missing_def lit_def)
  have h2: "message ?req = Some ?m" by simp
  have h3: "\<forall>c\<in>set ?m. isWhiteSpace c" by (simp add: isWhiteSpace_def lit_def)
  show ?thesis
    by (rule blank_message_rejected [OF h1 h2 h3])
qed

subsection \<open>Text extraction\<close>

text \<open>
  Claim C6. Text extraction looks at the first candidate only (the others, \<open>rest\<close>, do
  not occur in the result) and gives the texts of its content parts, concatenated in
  order, a part without text counting as empty. A payload without candidates, with an
  empty candidate list, or whose first candidate has no content or no parts gives the
  empty string.
\<close>

theorem extractText_first_candidate_parts:
  "extractText \<lparr>candidates = None\<rparr> = []
   \<and> extractText \<lparr>candidates = Some []\<rparr> = []
   \<and> extractText \<lparr>candidates = Some (\<lparr>c_content = None\<rparr> # rest)\<rparr> = []
   \<and> extractText \<lparr>candidates = Some (\<lparr>c_content = Some \<lparr>parts = None\<rparr>\<rparr> # rest)\<rparr> = []
   \<and> extractText \<lparr>candidates = Some (\<lparr>c_content = Some \<lparr>parts = Some ps\<rparr>\<rparr> # rest)\<rparr>
       = concat (map (\<lambda>p. case p_text p of None \<Rightarrow> [] | Some t \<Rightarrow> t) ps)"
  by (simp add: extractText_def nullish_def join_empty_sep)

subsection \<open>Prompt assembly\<close>

lemma join_append_Cons:
  "join sep (xs @ x # ys) =
     join sep xs @ (if xs = [] then [] else sep) @ x @ (if ys = [] then [] else sep) @ join sep ys"
proof (induction sep xs rule: join.induct)
  case (1 sep)
  show ?case by (cases ys) simp_all
next
  case (2 sep a)
  show ?case by (cases ys) simp_all
next
  case (3 sep a b bs)
  then show ?case by simp
qed

lemma trim_wrapped:
  assumes "s \<noteq> []" and "\<not> isWhiteSpace (hd s)" and "\<not> isWhiteSpace (last s)"
    and "\<forall>c\<in>set w1. isWhiteSpace c" and "\<forall>c\<in>set w2. isWhiteSpace c"
  shows "trim (w1 @ s @ w2) = s"
proof -
  have "dropWhile isWhiteSpace (w1 @ s @ w2) = dropWhile isWhiteSpace (s @ w2)"
    by (rule dropWhile_append2) (use assms(4) in auto)
  also have "\<dots> = s @ w2"
    using assms(1,2) by (cases s) auto
  finally have start: "trimStart (w1 @ s @ w2) = s @ w2"
    by (simp add: trimStart_def)
  have "dropWhile isWhiteSpace (rev w2 @ rev s) = dropWhile isWhiteSpace (rev s)"
    by (rule dropWhile_append2) (use assms(5) in auto)
  also have "\<dots> = rev s"
    using assms(1,3) by (cases "rev s") (auto simp: last_rev [symmetric] simp del: last_rev)
  finally have "trimEnd (s @ w2) = s"
    by (simp add: trimEnd_def)
  with start show ?thesis by (simp add: trim_def)
qed

lemma trim_between:
  assumes "\<not> isWhiteSpace a" and "\<not> isWhiteSpace b"
  shows "trim (lit ''\<newline>'' @ (a # m @ [b]) @ lit ''\<newline>'') = a # m @ [b]"
  by (rule trim_wrapped) (use assms in \<open>simp_all add: isWhiteSpace_def lit_def\<close>)

lemma userPrompt_layout:
  \<open>userPrompt unicodeUpper req msg =
     lit ''You are operating the Gemini Live Agentic console.\<newline>Mode ID: ''
     @ nullish (modeId req) (lit ''unknown'')
     @ lit ''\<newline>System Instructions:\<newline>''
     @ nullish (systemPrompt req) (lit ''Maintain a helpful, agentic tone and expand user ideas.'')
     @ lit ''\<newline>\<newline>Transcript so far:\<newline>''
     @ transcript_of unicodeUpper (nullish (conversation req) [])
     @ lit ''\<newline>\<newline>New live user utterance:\<newline>''
     @ msg
     @ lit ''\<newline>\<newline>Respond with strict JSON that matches:\<newline>{\<newline>  "reply": "string",\<newline>''
     @ lit ''  "plan": "optional string describing next agentic actions, formatted in markdown bullet points if present"\<newline>}''\<close>
  (is "_ = ?s")
proof -
  let ?m = \<open>lit ''ou are operating the Gemini Live Agentic console.\<newline>Mode ID: ''
     @ nullish (modeId req) (lit ''unknown'')
     @ lit ''\<newline>System Instructions:\<newline>''
     @ nullish (systemPrompt req) (lit ''Maintain a helpful, agentic tone and expand user ideas.'')
     @ lit ''\<newline>\<newline>Transcript so far:\<newline>''
     @ transcript_of unicodeUpper (nullish (conversation req) [])
     @ lit ''\<newline>\<newline>New live user utterance:\<newline>''
     @ msg
     @ lit ''\<newline>\<newline>Respond with strict JSON that matches:\<newline>{\<newline>  "reply": "string",\<newline>''
     @ lit ''  "plan": "optional string describing next agentic actions, formatted in markdown bullet points if present"\<newline>''\<close>
  have s: "?s = 0x59 # ?m @ [0x7D]" by (simp add: lit_def)
  have "userPrompt unicodeUpper req msg = trim (lit ''\<newline>'' @ ?s @ lit ''\<newline>'')"
    unfolding userPrompt_def by (simp only: append_assoc)
  also have "\<dots> = ?s"
    unfolding s by (rule trim_between) (simp_all add: isWhiteSpace_def)
  finally show ?thesis .
qed

lemma autopilotPrompt_layout:
  \<open>autopilotPrompt unicodeUpper req =
     lit ''You are the autonomous design autopilot for a Gemini Live mobile agent.\<newline>''
     @ lit ''Assess the current session for mode "'' @ nullish (d_modeId req) (lit ''unspecified'')
     @ lit ''".\<newline>''
     @ lit ''\<newline>Context transcript:\<newline>''
     @ or_else (transcript_of unicodeUpper (nullish (d_transcript req) []))
         (lit ''No conversation captured.'')
     @ lit ''\<newline>\<newline>Additional operator notes:\<newline>''
     @ or_else (nullish (d_notes req) []) (lit ''No extra notes.'')
     @ lit ''\<newline>\<newline>Output a crisp roadmap covering:\<newline>''
     @ lit ''1. UI/interaction adjustments (max 3 bullets)\<newline>''
     @ lit ''2. New or upgraded modes, including names and signature behaviors\<newline>''
     @ lit ''3. Integration or MCP connector opportunities with validation steps\<newline>''
     @ lit ''\<newline>Return markdown no longer than 220 words. Lean into agentic, actionable language.''\<close>
  (is "_ = ?s")
proof -
  let ?m = \<open>lit ''ou are the autonomous design autopilot for a Gemini Live mobile agent.\<newline>''
     @ lit ''Assess the current session for mode "'' @ nullish (d_modeId req) (lit ''unspecified'')
     @ lit ''".\<newline>''
     @ lit ''\<newline>Context transcript:\<newline>''
     @ or_else (transcript_of unicodeUpper (nullish (d_transcript req) []))
         (lit ''No conversation captured.'')
     @ lit ''\<newline>\<newline>Additional operator notes:\<newline>''
     @ or_else (nullish (d_notes req) []) (lit ''No extra notes.'')
     @ lit ''\<newline>\<newline>Output a crisp roadmap covering:\<newline>''
     @ lit ''1. UI/interaction adjustments (max 3 bullets)\<newline>''
     @ lit ''2. New or upgraded modes, including names and signature behaviors\<newline>''
     @ lit ''3. Integration or MCP connector opportunities with validation steps\<newline>''
     @ lit ''\<newline>Return markdown no longer than 220 words. Lean into agentic, actionable language''\<close>
  have s: "?s = 0x59 # ?m @ [0x2E]" by (simp add: lit_def)
  have "autopilotPrompt unicodeUpper req = trim (lit ''\<newline>'' @ ?s @ lit ''\<newline>'')"
    unfolding autopilotPrompt_def by (simp only: append_assoc)
  also have "\<dots> = ?s"
    unfolding s by (rule trim_between) (simp_all add: isWhiteSpace_def)
  finally show ?thesis .
qed

lemma sixth_segment: "a @ b @ c @ d @ e @ t @ rest = (a @ b @ c @ d @ e) @ t @ rest"
  by simp

lemma toUpperCase_ascii:
  "list_all (\<lambda>c. c < 0x80) s \<Longrightarrow> toUpperCase unicodeUpper s = map upperAscii s"
  by (simp add: toUpperCase_def)

text \<open>
  Claim C5, as amended. Each turn of the history contributes the line made of its role
  as \<^verbatim>\<open>toUpperCase\<close> returns it (for an ASCII label: the letters a to z in upper
  case), a colon and a space, and its content unchanged; the line stands between the
  transcript of the turns before it and the transcript of the turns after it, separated
  from each by one newline. Both prompts contain that transcript as one contiguous block.
  This holds for every case table of the runtime.
\<close>

theorem transcript_turns_in_order:
  "transcript_of unicodeUpper (before @ turn # after) =
     transcript_of unicodeUpper before @ (if before = [] then [] else lit ''\<newline>'')
     @ toUpperCase unicodeUpper (role turn) @ lit '': '' @ content turn
     @ (if after = [] then [] else lit ''\<newline>'') @ transcript_of unicodeUpper after
   \<and> (list_all (\<lambda>c. c < 0x80) (role turn) \<longrightarrow>
        toUpperCase unicodeUpper (role turn) = map upperAscii (role turn))
   \<and> (\<exists>pre post. userPrompt unicodeUpper (req\<lparr>conversation := Some conv\<rparr>) msg
          = pre @ transcript_of unicodeUpper conv @ post)
   \<and> (\<exists>pre post. autopilotPrompt unicodeUpper (dreq\<lparr>d_transcript := Some conv\<rparr>)
          = pre @ transcript_of unicodeUpper conv @ post)"
proof (intro conjI)
  show "transcript_of unicodeUpper (before @ turn # after) =
     transcript_of unicodeUpper before @ (if before = [] then [] else lit ''\<newline>'')
     @ toUpperCase unicodeUpper (role turn) @ lit '': '' @ content turn
     @ (if after = [] then [] else lit ''\<newline>'') @ transcript_of unicodeUpper after"
    by (simp add: transcript_of_def join_append_Cons turn_line_def)
next
  show "list_all (\<lambda>c. c < 0x80) (role turn) \<longrightarrow>
        toUpperCase unicodeUpper (role turn) = map upperAscii (role turn)"
    by (simp add: toUpperCase_ascii)
next
  have c: "nullish (conversation (req\<lparr>conversation := Some conv\<rparr>)) [] = conv"
    by (simp add: nullish_def)
  show "\<exists>pre post. userPrompt unicodeUpper (req\<lparr>conversation := Some conv\<rparr>) msg
          = pre @ transcript_of unicodeUpper conv @ post"
    unfolding userPrompt_layout c by (intro exI) (rule sixth_segment)
next
  have c: "nullish (d_transcript (dreq\<lparr>d_transcript := Some conv\<rparr>)) [] = conv"
    by (simp add: nullish_def)
  show "\<exists>pre post. autopilotPrompt unicodeUpper (dreq\<lparr>d_transcript := Some conv\<rparr>)
          = pre @ transcript_of unicodeUpper conv @ post"
  proof (cases "transcript_of unicodeUpper conv = []")
    case True
    then show ?thesis by (metis append_Nil)
  next
    case False
    then have o: "or_else (transcript_of unicodeUpper conv) (lit ''No conversation captured.'')
                    = transcript_of unicodeUpper conv"
      by (simp add: or_else_def)
    show ?thesis
      unfolding autopilotPrompt_layout c o by (intro exI) (rule sixth_segment)
  qed
qed

theorem transcript_turns_in_order_witness:
  "list_all (\<lambda>c. c < 0x80) (lit ''assistant'')
   \<and> toUpperCase (map upperAscii) (lit ''assistant'') = lit ''ASSISTANT''
   \<and> transcript_of (map upperAscii)
        ([\<lparr>role = lit ''user'', content = lit ''hi''\<rparr>]
         @ \<lparr>role = lit ''assistant'', content = lit ''yo''\<rparr> # [])
      = lit ''USER: hi\<newline>ASSISTANT: yo''"
proof -
  note t = transcript_turns_in_order [of "map upperAscii"
      "[\<lparr>role = lit ''user'', content = lit ''hi''\<rparr>]"
      "\<lparr>role = lit ''assistant'', content = lit ''yo''\<rparr>" "[]"]
  have a: "list_all (\<lambda>c. c < 0x80) (lit ''assistant'')" by (simp add: lit_def)
  have u: "transcript_of (map upperAscii) [\<lparr>role = lit ''user'', content = lit ''hi''\<rparr>]
             = lit ''USER: hi''"
    by (simp add: transcript_of_def turn_line_def toUpperCase_def upperAscii_def lit_def)
  have e: "transcript_of (map upperAscii) [] = []" by (simp add: transcript_of_def)
  have m: "map upperAscii (lit ''assistant'') = lit ''ASSISTANT''"
    by (simp add: upperAscii_def lit_def)
  from t a have up: "toUpperCase (map upperAscii) (lit ''assistant'') = lit ''ASSISTANT''"
    by (simp add: m)
  have "transcript_of (map upperAscii)
        ([\<lparr>role = lit ''user'', content = lit ''hi''\<rparr>]
         @ \<lparr>role = lit ''assistant'', content = lit ''yo''\<rparr> # [])
      = lit ''USER: hi'' @ lit ''\<newline>'' @ lit ''ASSISTANT'' @ lit '': '' @ lit ''yo''"
    by (simp only: t [THEN conjunct1]) (simp add: u e up)
  then show ?thesis using a up by (simp add: lit_def)
qed

text \<open>
  Claim C5 as stated asks for the role labels verbatim. The label \<open>user\<close> of a history
  arrives in the transcript as \<open>USER\<close> (an ASCII label, so the case table passed in is
  not consulted).
\<close>

theorem role_label_verbatim_counterexample:
  "transcript_of (map upperAscii) [\<lparr>role = lit ''user'', content = lit ''hi''\<rparr>] = lit ''USER: hi''
   \<and> transcript_of (map upperAscii) [\<lparr>role = lit ''user'', content = lit ''hi''\<rparr>] \<noteq> lit ''user: hi''"
  by (simp add: transcript_of_def turn_line_def toUpperCase_def upperAscii_def lit_def)

section \<open>Properties of the session controller\<close>

subsection \<open>One request in flight\<close>

lemma single_flight_initial: "single_flight initial"
  by (simp add: single_flight_def initial_def defaultModes_def)

lemma currentMode_Some: "modes s \<noteq> [] \<Longrightarrow> \<exists>mode. currentMode s = Some mode"
  by (cases "modes s") (auto simp: currentMode_def split: option.splits)

lemma handleSubmit_single_flight:
  assumes "single_flight s" and "handleSubmit mode s ov now = (s', fx)"
  shows "single_flight s'"
proof (cases "trim (nullish ov (pendingInput s)) = []")
  case True
  then show ?thesis using assms by (simp add: handleSubmit_def)
next
  case False
  then show ?thesis
    using assms
    by (fastforce simp: handleSubmit_def single_flight_def Let_def list_all_iff split: option.splits)
qed

lemma handleSubmit_resume_frame:
  assumes "handleSubmit_resume mid s outcome now = (s', fx)"
  shows "modes s' = modes s \<and> pending s' = pending s \<and> aborted s' = aborted s
         \<and> controllers s' = controllers s \<and> recorderAbortRef s' = recorderAbortRef s"
  using assms
  by (auto simp: handleSubmit_resume_def Let_def split: sum.splits prod.splits if_splits)

lemma handleDesignSynthesis_frame:
  assumes "handleDesignSynthesis s = (s', fx)"
  shows "modes s' = modes s \<and> pending s' = pending s \<and> aborted s' = aborted s
         \<and> controllers s' = controllers s \<and> recorderAbortRef s' = recorderAbortRef s"
  using assms by (auto simp: handleDesignSynthesis_def Let_def split: if_splits)

lemma handleDesignSynthesis_resume_frame:
  "modes (handleDesignSynthesis_resume s outcome) = modes s
   \<and> pending (handleDesignSynthesis_resume s outcome) = pending s
   \<and> aborted (handleDesignSynthesis_resume s outcome) = aborted s
   \<and> controllers (handleDesignSynthesis_resume s outcome) = controllers s
   \<and> recorderAbortRef (handleDesignSynthesis_resume s outcome) = recorderAbortRef s"
  by (auto simp: handleDesignSynthesis_resume_def split: sum.splits)

lemma step_single_flight:
  assumes "single_flight s" and "step s ev = Some (s', fx)"
  shows "single_flight s'"
proof (cases ev)
  case (Submit ov now)
  then show ?thesis
    using assms by (auto split: option.splits dest: handleSubmit_single_flight)
next
  case (ChatSettled c outcome now)
  then obtain mid where r: "handleSubmit_resume mid
       (s\<lparr>pending := filter (\<lambda>p. fst p \<noteq> c) (pending s)\<rparr>) outcome now = (s', fx)"
    using assms(2) by (auto split: option.splits if_splits)
  show ?thesis
    using assms(1) handleSubmit_resume_frame [OF r]
    by (simp add: single_flight_def list_all_iff split: option.splits)
next
  case (InputChanged v)
  then show ?thesis using assms by (auto simp: single_flight_def split: option.splits)
next
  case (ModeSelected m)
  then show ?thesis using assms by (auto simp: single_flight_def split: option.splits)
next
  case (NotesChanged v)
  then show ?thesis using assms by (auto simp: single_flight_def split: option.splits)
next
  case DesignRequested
  then have "handleDesignSynthesis s = (s', fx)" using assms(2) by simp
  from handleDesignSynthesis_frame [OF this] show ?thesis
    using assms(1) by (simp add: single_flight_def list_all_iff split: option.splits)
next
  case (DesignSettled outcome)
  then have "s' = handleDesignSynthesis_resume s outcome"
    using assms(2) by (auto split: if_splits)
  then show ?thesis
    using assms(1) handleDesignSynthesis_resume_frame [of s outcome]
    by (simp add: single_flight_def list_all_iff split: option.splits)
next
  case (ModeAdded newMode)
  then show ?thesis using assms by (auto simp: single_flight_def split: option.splits)
next
  case ConnectorAdded
  then show ?thesis
    using assms by (auto simp: single_flight_def split: option.splits if_splits)
next
  case (VoicesChanged chosen)
  then show ?thesis using assms by (auto simp: single_flight_def split: option.splits)
qed

lemma run_single_flight:
  "single_flight s \<Longrightarrow> run s evs = Some (s', fx) \<Longrightarrow> single_flight s'"
proof (induction evs arbitrary: s fx)
  case Nil
  then show ?case by simp
next
  case (Cons ev evs)
  then show ?case
    by (auto split: option.splits prod.splits dest: step_single_flight)
qed

lemma aborted_completion:
  assumes "c \<in> set (aborted s)" and "step s (ChatSettled c outcome now) = Some (s', fx)"
  shows "\<exists>mid text. messages s' = messages s @
            [\<lparr>role = lit ''system'', content = lit ''Gemini live agent error: '' @ text,
              msgId = uuids s, createdAt = now, msgModeId = mid\<rparr>] \<and> fx = []"
proof -
  from assms obtain mid where m: "map_of (pending s) c = Some mid" and r: "rejects outcome"
    and h: "handleSubmit_resume mid (s\<lparr>pending := filter (\<lambda>p. fst p \<noteq> c) (pending s)\<rparr>)
              outcome now = (s', fx)"
    by (auto split: option.splits if_splits)
  from r obtain error where
    e: "try_result outcome (lit ''Gemini Live request failed: '') = Inl error"
    by (cases outcome rule: rejects.cases) auto
  show ?thesis
  proof (cases error)
    case (ErrorInstance msg)
    with h e show ?thesis
      by (intro exI [of _ mid] exI [of _ msg]) (auto simp: handleSubmit_resume_def)
  next
    case NotAnError
    with h e show ?thesis
      by (intro exI [of _ mid] exI [of _ "lit ''unknown''"])
        (auto simp: handleSubmit_resume_def lit_append)
  qed
qed

lemma currentMode_initial_mode:
  "modes s = defaultModes \<Longrightarrow> currentModeId s = (lit ''research-navigator'')
     \<Longrightarrow> currentMode s = Some research_navigator"
  by (simp add: currentMode_def defaultModes_def research_navigator_def)

lemma trim_first: "trim (lit ''first'') = (lit ''first'')"
  by (simp add: trim_def trimStart_def trimEnd_def isWhiteSpace_def lit_def)

lemma trim_second: "trim (lit ''second'') = (lit ''second'')"
  by (simp add: trim_def trimStart_def trimEnd_def isWhiteSpace_def lit_def)

text \<open>
  Claim C7, as amended. In every session, when a message is submitted while an earlier
  chat request is in flight and not yet aborted, the handler first aborts that request's
  controller and then issues the new request under a fresh controller; afterwards the new
  request is the only one in flight that has not been aborted. An aborted request never
  contributes its response: whenever it completes, exactly one system message with the
  text of its error is appended, and nothing is spoken.
\<close>

theorem resubmit_aborts_request_in_flight:
  assumes "run initial evs = Some (s, fx0)"
    and "(c, mid) \<in> set (pending s)" and "c \<notin> set (aborted s)"
    and "trim (nullish contentOverride (pendingInput s)) \<noteq> []"
  shows "\<exists>s' payload.
           step s (Submit contentOverride now)
             = Some (s', [AbortController c, FetchChat (controllers s) payload])
           \<and> c \<noteq> controllers s \<and> c \<in> set (aborted s') \<and> controllers s \<notin> set (aborted s')
           \<and> list_all (\<lambda>p. fst p = controllers s \<or> fst p \<in> set (aborted s')) (pending s')
           \<and> (\<forall>s2 outcome t s3 fx3.
                 c \<in> set (aborted s2) \<longrightarrow> step s2 (ChatSettled c outcome t) = Some (s3, fx3) \<longrightarrow>
                 (\<exists>m text. messages s3 = messages s2 @
                    [\<lparr>role = (lit ''system''), content = (lit ''Gemini live agent error: '') @ text,
                      msgId = uuids s2, createdAt = t, msgModeId = m\<rparr>] \<and> fx3 = []))"
proof -
  have inv: "single_flight s"
    using run_single_flight [OF single_flight_initial assms(1)] .
  then obtain mode where mode: "currentMode s = Some mode"
    using currentMode_Some [of s] by (auto simp: single_flight_def)
  have ref: "recorderAbortRef s = Some c" and lt: "c < controllers s"
    using inv assms(2,3) by (auto simp: single_flight_def list_all_iff)
  have ab: "\<forall>a\<in>set (aborted s). a < controllers s"
    using inv by (simp add: single_flight_def list_all_iff)
  have pe: "\<forall>p\<in>set (pending s). fst p = c \<or> fst p \<in> set (aborted s)"
    using inv ref by (auto simp: single_flight_def list_all_iff)
  let ?s' = "fst (handleSubmit mode s contentOverride now)"
  have st: "step s (Submit contentOverride now) = Some (handleSubmit mode s contentOverride now)"
    using mode by simp
  have fx: "\<exists>payload. snd (handleSubmit mode s contentOverride now)
              = [AbortController c, FetchChat (controllers s) payload]"
    using assms(4) ref by (simp add: handleSubmit_def Let_def)
  have a': "aborted ?s' = c # aborted s"
    using assms(4) ref by (simp add: handleSubmit_def Let_def)
  have p': "pending ?s' = pending s @ [(controllers s, currentModeId s)]"
    using assms(4) ref by (simp add: handleSubmit_def Let_def)
  have 1: "c \<noteq> controllers s" using lt by simp
  have 2: "c \<in> set (aborted ?s')" using a' by simp
  have 3: "controllers s \<notin> set (aborted ?s')" using a' ab lt by auto
  have 4: "list_all (\<lambda>p. fst p = controllers s \<or> fst p \<in> set (aborted ?s')) (pending ?s')"
    using pe by (auto simp: a' p' list_all_iff)
  have 5: "\<forall>s2 outcome t s3 fx3.
             c \<in> set (aborted s2) \<longrightarrow> step s2 (ChatSettled c outcome t) = Some (s3, fx3) \<longrightarrow>
             (\<exists>m text. messages s3 = messages s2 @
                [\<lparr>role = (lit ''system''), content = (lit ''Gemini live agent error: '') @ text,
                  msgId = uuids s2, createdAt = t, msgModeId = m\<rparr>] \<and> fx3 = [])"
    using aborted_completion by blast
  from fx obtain payload where
    hp: "handleSubmit mode s contentOverride now
           = (?s', [AbortController c, FetchChat (controllers s) payload])"
    by (metis prod.collapse)
  have 0: "step s (Submit contentOverride now)
             = Some (?s', [AbortController c, FetchChat (controllers s) payload])"
    using st hp by simp
  show ?thesis
    by (rule exI [of _ ?s'], rule exI [of _ payload], intro conjI) (rule 0 1 2 3 4 5)+
qed

theorem resubmit_aborts_request_in_flight_witness:
  "\<exists>s fx0 s' payload.
     run initial [Submit (Some (lit ''first'')) 1] = Some (s, fx0)
     \<and> (0, (lit ''research-navigator'')) \<in> set (pending s) \<and> 0 \<notin> set (aborted s)
     \<and> trim (nullish (Some (lit ''second'')) (pendingInput s)) \<noteq> []
     \<and> step s (Submit (Some (lit ''second'')) 2) = Some (s', [AbortController 0, FetchChat 1 payload])
     \<and> 0 \<in> set (aborted s') \<and> 1 \<notin> set (aborted s')"
proof -
  define s where "s = fst (handleSubmit research_navigator initial (Some (lit ''first'')) 1)"
  define fx0 where "fx0 = snd (handleSubmit research_navigator initial (Some (lit ''first'')) 1)"
  have h1: "run initial [Submit (Some (lit ''first'')) 1] = Some (s, fx0)"
    by (simp add: s_def fx0_def currentMode_initial_mode initial_def)
  have p: "pending s = [(0, (lit ''research-navigator''))]" and a: "aborted s = []"
    and c: "controllers s = 1"
    by (simp_all add: s_def handleSubmit_def initial_def nullish_def trim_first Let_def)
  have h2: "(0, (lit ''research-navigator'')) \<in> set (pending s)" by (simp add: p)
  have h3: "0 \<notin> set (aborted s)" by (simp add: a)
  have h4: "trim (nullish (Some (lit ''second'')) (pendingInput s)) \<noteq> []"
    by (simp add: nullish_def trim_second)
  from resubmit_aborts_request_in_flight [OF h1 h2 h3 h4, of 2]
  obtain s' payload where
    "step s (Submit (Some (lit ''second'')) 2)
       = Some (s', [AbortController 0, FetchChat (controllers s) payload])"
    and "0 \<in> set (aborted s')" and "controllers s \<notin> set (aborted s')"
    by blast
  with h1 h2 h3 h4 show ?thesis
    unfolding c by blast
qed

text \<open>
  Claim C7 as stated lets only the second request append to the history. In the session
  below the first request is aborted by the second submission, its rejection is caught,
  and the history receives a system message for it before the reply to the second.
\<close>

theorem second_result_only_counterexample:
  "session_log (run initial
     [Submit (Some (lit ''first'')) 1,
      Submit (Some (lit ''second'')) 2,
      ChatSettled 0 (Failed (ErrorInstance (lit ''signal is aborted without reason''))) 3,
      ChatSettled 1 (Answered True (lit ''OK'') (Inr ((lit ''done''), None))) 4])
   = [\<lparr>role = (lit ''user''), content = (lit ''first'')\<rparr>,
      \<lparr>role = (lit ''user''), content = (lit ''second'')\<rparr>,
      \<lparr>role = (lit ''system''), content = (lit ''Gemini live agent error: signal is aborted without reason'')\<rparr>,
      \<lparr>role = (lit ''assistant''), content = (lit ''done'')\<rparr>]"
  by (simp add: session_log_def initial_def currentMode_initial_mode handleSubmit_def
      handleSubmit_resume_def nullish_def trim_first trim_second role_content_def Let_def
      lit_append)

subsection \<open>Completion of a chat request\<close>

text \<open>
  Claim C8. A chat request in flight can complete in every way the browser allows, and
  each completion leaves the streaming flag cleared. Every completion by an error appends
  exactly one system message to the history, made of the prefix
  \<open>Gemini live agent error: \<close> and a description: \<^verbatim>\<open>fetch\<close> rejecting with an
  \<open>Error\<close> gives its message; a response without success status gives
  \<open>Gemini Live request failed: \<close> and the status text, whatever the body; a body that
  cannot be read gives the message of that error; a thrown value that is no \<open>Error\<close>
  gives \<open>unknown\<close>.
\<close>

theorem chat_completion_cleanup:
  assumes "map_of (pending s) c = Some mid"
    and "c \<in> set (aborted s) \<longrightarrow> rejects outcome"
  shows "\<exists>s' fx. step s (ChatSettled c outcome now) = Some (s', fx)
           \<and> \<not> isStreaming s'
           \<and> (\<forall>msg. outcome = Failed (ErrorInstance msg) \<longrightarrow>
                 messages s' = messages s @
                   [\<lparr>role = lit ''system'', content = lit ''Gemini live agent error: '' @ msg,
                     msgId = uuids s, createdAt = now, msgModeId = mid\<rparr>])
           \<and> (outcome = Failed NotAnError \<longrightarrow>
                 messages s' = messages s @
                   [\<lparr>role = lit ''system'', content = lit ''Gemini live agent error: unknown'',
                     msgId = uuids s, createdAt = now, msgModeId = mid\<rparr>])
           \<and> (\<forall>statusText js. outcome = Answered False statusText js \<longrightarrow>
                 messages s' = messages s @
                   [\<lparr>role = lit ''system'',
                     content = lit ''Gemini live agent error: ''
                               @ lit ''Gemini Live request failed: '' @ statusText,
                     msgId = uuids s, createdAt = now, msgModeId = mid\<rparr>])
           \<and> (\<forall>statusText msg. outcome = Answered True statusText (Inl (ErrorInstance msg)) \<longrightarrow>
                 messages s' = messages s @
                   [\<lparr>role = lit ''system'', content = lit ''Gemini live agent error: '' @ msg,
                     msgId = uuids s, createdAt = now, msgModeId = mid\<rparr>])
           \<and> (\<forall>statusText. outcome = Answered True statusText (Inl NotAnError) \<longrightarrow>
                 messages s' = messages s @
                   [\<lparr>role = lit ''system'', content = lit ''Gemini live agent error: unknown'',
                     msgId = uuids s, createdAt = now, msgModeId = mid\<rparr>])"
proof -
  let ?r = "handleSubmit_resume mid (s\<lparr>pending := filter (\<lambda>p. fst p \<noteq> c) (pending s)\<rparr>)
              outcome now"
  have st: "step s (ChatSettled c outcome now) = Some (fst ?r, snd ?r)"
    using assms by auto
  have idle: "\<not> isStreaming (fst ?r)"
    by (auto simp: handleSubmit_resume_def Let_def split: sum.splits prod.splits)
  have 1: "\<forall>msg. outcome = Failed (ErrorInstance msg) \<longrightarrow>
             messages (fst ?r) = messages s @
               [\<lparr>role = lit ''system'', content = lit ''Gemini live agent error: '' @ msg,
                 msgId = uuids s, createdAt = now, msgModeId = mid\<rparr>]"
    by (simp add: handleSubmit_resume_def)
  have 2: "outcome = Failed NotAnError \<longrightarrow>
             messages (fst ?r) = messages s @
               [\<lparr>role = lit ''system'', content = lit ''Gemini live agent error: unknown'',
                 msgId = uuids s, createdAt = now, msgModeId = mid\<rparr>]"
    by (simp add: handleSubmit_resume_def)
  have 3: "\<forall>statusText js. outcome = Answered False statusText js \<longrightarrow>
             messages (fst ?r) = messages s @
               [\<lparr>role = lit ''system'',
                 content = lit ''Gemini live agent error: ''
                           @ lit ''Gemini Live request failed: '' @ statusText,
                 msgId = uuids s, createdAt = now, msgModeId = mid\<rparr>]"
    by (simp add: handleSubmit_resume_def)
  have 4: "\<forall>statusText msg. outcome = Answered True statusText (Inl (ErrorInstance msg)) \<longrightarrow>
             messages (fst ?r) = messages s @
               [\<lparr>role = lit ''system'', content = lit ''Gemini live agent error: '' @ msg,
                 msgId = uuids s, createdAt = now, msgModeId = mid\<rparr>]"
    by (simp add: handleSubmit_resume_def)
  have 5: "\<forall>statusText. outcome = Answered True statusText (Inl NotAnError) \<longrightarrow>
             messages (fst ?r) = messages s @
               [\<lparr>role = lit ''system'', content = lit ''Gemini live agent error: unknown'',
                 msgId = uuids s, createdAt = now, msgModeId = mid\<rparr>]"
    by (simp add: handleSubmit_resume_def)
  show ?thesis
    by (rule exI [of _ "fst ?r"], rule exI [of _ "snd ?r"], intro conjI)
      (rule st idle 1 2 3 4 5)+
qed

text \<open>
  Three completions of one request in flight: the network fails, the upstream answers
  502 with a readable body, and the request has been aborted.
\<close>

theorem chat_completion_cleanup_witness:
  "(\<exists>s' fx.
      step (initial\<lparr>isStreaming := True, pending := [(0, lit ''flow-coach'')], controllers := 1\<rparr>)
        (ChatSettled 0 (Failed (ErrorInstance (lit ''Failed to fetch''))) 7) = Some (s', fx)
      \<and> \<not> isStreaming s'
      \<and> map role_content (messages s')
          = [\<lparr>role = lit ''system'',
              content = lit ''Gemini live agent error: Failed to fetch''\<rparr>])
   \<and> (\<exists>s' fx.
      step (initial\<lparr>isStreaming := True, pending := [(0, lit ''flow-coach'')], controllers := 1\<rparr>)
        (ChatSettled 0 (Answered False (lit ''Bad Gateway'')
           (Inr (lit ''upstream body'', None))) 7) = Some (s', fx)
      \<and> \<not> isStreaming s'
      \<and> map role_content (messages s')
          = [\<lparr>role = lit ''system'',
              content = lit ''Gemini live agent error: Gemini Live request failed: Bad Gateway''\<rparr>])
   \<and> (\<exists>s' fx.
      step (initial\<lparr>isStreaming := True, pending := [(0, lit ''flow-coach'')], controllers := 1,
                    aborted := [0]\<rparr>)
        (ChatSettled 0 (Failed (ErrorInstance (lit ''signal is aborted without reason''))) 7)
          = Some (s', fx)
      \<and> \<not> isStreaming s'
      \<and> map role_content (messages s')
          = [\<lparr>role = lit ''system'',
              content = lit ''Gemini live agent error: signal is aborted without reason''\<rparr>])"
proof (intro conjI)
  let ?s = "initial\<lparr>isStreaming := True, pending := [(0, lit ''flow-coach'')], controllers := 1\<rparr>"
  let ?a = "initial\<lparr>isStreaming := True, pending := [(0, lit ''flow-coach'')], controllers := 1,
                    aborted := [0]\<rparr>"
  have h1: "map_of (pending ?s) 0 = Some (lit ''flow-coach'')" by simp
  have h1a: "map_of (pending ?a) 0 = Some (lit ''flow-coach'')" by simp
  have e: "messages initial = []" by (simp add: initial_def)
  {
    let ?o = "Failed (ErrorInstance (lit ''Failed to fetch'')) :: (jstring \<times> jstring option) fetch_outcome"
    have h2: "0 \<in> set (aborted ?s) \<longrightarrow> rejects ?o" by simp
    from chat_completion_cleanup [OF h1 h2, of 7]
    obtain s' fx where "step ?s (ChatSettled 0 ?o 7) = Some (s', fx)" and "\<not> isStreaming s'"
      and "messages s' = messages ?s @
             [\<lparr>role = lit ''system'',
               content = lit ''Gemini live agent error: '' @ lit ''Failed to fetch'',
               msgId = uuids ?s, createdAt = 7, msgModeId = lit ''flow-coach''\<rparr>]"
      by blast
    then show "\<exists>s' fx. step ?s (ChatSettled 0 ?o 7) = Some (s', fx) \<and> \<not> isStreaming s'
        \<and> map role_content (messages s')
            = [\<lparr>role = lit ''system'', content = lit ''Gemini live agent error: Failed to fetch''\<rparr>]"
      by (intro exI [of _ s'] exI [of _ fx]) (simp add: e role_content_def lit_append lit_append2)
  }
  {
    let ?o = "Answered False (lit ''Bad Gateway'') (Inr (lit ''upstream body'', None))
                :: (jstring \<times> jstring option) fetch_outcome"
    have h2: "0 \<in> set (aborted ?s) \<longrightarrow> rejects ?o" by (simp add: initial_def)
    from chat_completion_cleanup [OF h1 h2, of 7]
    obtain s' fx where "step ?s (ChatSettled 0 ?o 7) = Some (s', fx)" and "\<not> isStreaming s'"
      and "messages s' = messages ?s @
             [\<lparr>role = lit ''system'',
               content = lit ''Gemini live agent error: ''
                         @ lit ''Gemini Live request failed: '' @ lit ''Bad Gateway'',
               msgId = uuids ?s, createdAt = 7, msgModeId = lit ''flow-coach''\<rparr>]"
      by blast
    then show "\<exists>s' fx. step ?s (ChatSettled 0 ?o 7) = Some (s', fx) \<and> \<not> isStreaming s'
        \<and> map role_content (messages s')
            = [\<lparr>role = lit ''system'',
                content = lit ''Gemini live agent error: Gemini Live request failed: Bad Gateway''\<rparr>]"
      by (intro exI [of _ s'] exI [of _ fx]) (simp add: e role_content_def lit_append lit_append2)
  }
  {
    let ?o = "Failed (ErrorInstance (lit ''signal is aborted without reason''))
                :: (jstring \<times> jstring option) fetch_outcome"
    have h2: "0 \<in> set (aborted ?a) \<longrightarrow> rejects ?o" by simp
    from chat_completion_cleanup [OF h1a h2, of 7]
    obtain s' fx where "step ?a (ChatSettled 0 ?o 7) = Some (s', fx)" and "\<not> isStreaming s'"
      and "messages s' = messages ?a @
             [\<lparr>role = lit ''system'',
               content = lit ''Gemini live agent error: '' @ lit ''signal is aborted without reason'',
               msgId = uuids ?a, createdAt = 7, msgModeId = lit ''flow-coach''\<rparr>]"
      by blast
    then show "\<exists>s' fx. step ?a (ChatSettled 0 ?o 7) = Some (s', fx) \<and> \<not> isStreaming s'
        \<and> map role_content (messages s')
            = [\<lparr>role = lit ''system'',
                content = lit ''Gemini live agent error: signal is aborted without reason''\<rparr>]"
      by (intro exI [of _ s'] exI [of _ fx]) (simp add: e role_content_def lit_append lit_append2)
  }
qed

subsection \<open>Submission of blank input\<close>

text \<open>
  Claim C9. With no override and a pending input of white space only, in the sense of
  \<^verbatim>\<open>trim\<close> (or empty), the submit handler returns the state it was given and asks
  nothing of the browser: no message is appended, the streaming flag and the pending
  input keep their values, and no request is issued.
\<close>

theorem blank_submit_is_noop:
  assumes "\<forall>ch\<in>set (pendingInput s). isWhiteSpace ch"
  shows "handleSubmit mode s None now = (s, [])"
  using assms by (simp add: handleSubmit_def nullish_def trim_empty_iff)

theorem blank_submit_is_noop_witness:
  "handleSubmit research_navigator
     (initial\<lparr>pendingInput := lit ''  '' @ [0x00A0, 0x3000, 0x2029] @ lit ''\<newline>''\<rparr>) None 5
   = (initial\<lparr>pendingInput := lit ''  '' @ [0x00A0, 0x3000, 0x2029] @ lit ''\<newline>''\<rparr>, [])"
proof -
  let ?s = "initial\<lparr>pendingInput := lit ''  '' @ [0x00A0, 0x3000, 0x2029] @ lit ''\<newline>''\<rparr>"
  have h: "\<forall>ch\<in>set (pendingInput ?s). isWhiteSpace ch"
    by (simp add: isWhiteSpace_def lit_def)
  show ?thesis by (rule blank_submit_is_noop [OF h])
qed

subsection \<open>The transcript of a design request\<close>

lemma slice_negative: "0 < n \<Longrightarrow> slice (- int n) xs = drop (length xs - n) xs"
  by (auto simp: slice_def Let_def max_def nat_diff_distrib')

text \<open>
  Claim C10. Whenever the design handler issues its request (there are notes or
  messages), the transcript it sends is the wire form (role and content) of the last six
  messages of the whole log, or of all of them when there are fewer: a suffix of the log
  of length \<open>min 6 n\<close>, taken without regard to the mode a message belongs to.
\<close>

theorem design_transcript_last_six:
  assumes "trim (designNotes s) \<noteq> [] \<or> messages s \<noteq> []"
  shows "\<exists>s' ts.
           handleDesignSynthesis s
             = (s', [FetchDesign \<lparr>d_modeId = Some (currentModeId s),
                                  d_notes = Some (trim (designNotes s)),
                                  d_transcript = Some ts\<rparr>])
           \<and> ts = map role_content (drop (length (messages s) - 6) (messages s))
           \<and> length ts = min 6 (length (messages s))
           \<and> (\<exists>older. map role_content (messages s) = older @ ts)"
proof -
  let ?ts = "map role_content (drop (length (messages s) - 6) (messages s))"
  have sl: "slice (- 6) (messages s) = drop (length (messages s) - 6) (messages s)"
    using slice_negative [of 6 "messages s"] by simp
  have 1: "handleDesignSynthesis s
             = (s\<lparr>designLoading := True, designPending := designPending s + 1\<rparr>,
                [FetchDesign \<lparr>d_modeId = Some (currentModeId s),
                              d_notes = Some (trim (designNotes s)),
                              d_transcript = Some ?ts\<rparr>])"
    using assms by (auto simp: handleDesignSynthesis_def Let_def sl)
  have 2: "length ?ts = min 6 (length (messages s))" by auto
  have "map role_content (messages s)
          = map role_content (take (length (messages s) - 6) (messages s)) @ ?ts"
    by (simp flip: map_append)
  then have 3: "\<exists>older. map role_content (messages s) = older @ ?ts" by blast
  show ?thesis
    by (rule exI [of _ "s\<lparr>designLoading := True, designPending := designPending s + 1\<rparr>"],
        rule exI [of _ ?ts], intro conjI) (rule 1 refl 2 3)+
qed

theorem design_transcript_last_six_witness:
  "snd (handleDesignSynthesis (initial\<lparr>currentModeId := (lit ''flow-coach''), messages :=
      [\<lparr>role = (lit ''user''), content = (lit ''m1''), msgId = 0, createdAt = 1, msgModeId = (lit ''research-navigator'')\<rparr>,
       \<lparr>role = (lit ''assistant''), content = (lit ''m2''), msgId = 1, createdAt = 2, msgModeId = (lit ''research-navigator'')\<rparr>,
       \<lparr>role = (lit ''user''), content = (lit ''m3''), msgId = 2, createdAt = 3, msgModeId = (lit ''research-navigator'')\<rparr>,
       \<lparr>role = (lit ''assistant''), content = (lit ''m4''), msgId = 3, createdAt = 4, msgModeId = (lit ''research-navigator'')\<rparr>,
       \<lparr>role = (lit ''system''), content = (lit ''m5''), msgId = 4, createdAt = 5, msgModeId = (lit ''research-navigator'')\<rparr>,
       \<lparr>role = (lit ''user''), content = (lit ''m6''), msgId = 5, createdAt = 6, msgModeId = (lit ''flow-coach'')\<rparr>,
       \<lparr>role = (lit ''assistant''), content = (lit ''m7''), msgId = 6, createdAt = 7, msgModeId = (lit ''flow-coach'')\<rparr>]\<rparr>))
   = [FetchDesign \<lparr>d_modeId = Some (lit ''flow-coach''), d_notes = Some [], d_transcript = Some
        [\<lparr>role = (lit ''assistant''), content = (lit ''m2'')\<rparr>,
         \<lparr>role = (lit ''user''), content = (lit ''m3'')\<rparr>,
         \<lparr>role = (lit ''assistant''), content = (lit ''m4'')\<rparr>,
         \<lparr>role = (lit ''system''), content = (lit ''m5'')\<rparr>,
         \<lparr>role = (lit ''user''), content = (lit ''m6'')\<rparr>,
         \<lparr>role = (lit ''assistant''), content = (lit ''m7'')\<rparr>]\<rparr>]"
  (is "snd (handleDesignSynthesis ?s) = _")
proof -
  have h: "trim (designNotes ?s) \<noteq> [] \<or> messages ?s \<noteq> []" by simp
  have n: "trim (designNotes initial) = []"
    by (simp add: initial_def trim_def trimStart_def trimEnd_def)
  from design_transcript_last_six [OF h] obtain s' ts where
    "handleDesignSynthesis ?s
       = (s', [FetchDesign \<lparr>d_modeId = Some (currentModeId ?s),
                            d_notes = Some (trim (designNotes ?s)), d_transcript = Some ts\<rparr>])"
    and "ts = map role_content (drop (length (messages ?s) - 6) (messages ?s))"
    by blast
  then show ?thesis
    by (simp add: n role_content_def)
qed

end
